theory Spec2Isabelle
  imports Main "HOL-Library.Word" "HOL-Library.Char_ord" "HOL-Library.List_Lexorder"
begin

section \<open>The minimum-fee ante decorator of x/rewards (min\_cons\_fee.go)\<close>

text \<open>
  The development embeds \<^verbatim>\<open>src/x/rewards/ante/min_cons_fee.go\<close>: the method
  \<^verbatim>\<open>MinFeeDecorator.AnteHandle\<close> and its helper \<^verbatim>\<open>getContractFlatFees\<close>.
  The two collaborators of the decorator (the rewards keeper and the codec) are Go
  interfaces; they are fields of the record \<open>Env\<close> below, so every theorem holds for
  every implementation of them. The functions of the Cosmos SDK that the file calls
  (\<^verbatim>\<open>sdk.Dec\<close>, \<^verbatim>\<open>sdk.Coins\<close>) are embedded from the SDK's \<^verbatim>\<open>types/decimal.go\<close>,
  \<^verbatim>\<open>types/int.go\<close> and \<^verbatim>\<open>types/coin.go\<close>, with the panics that \<^verbatim>\<open>AnteHandle\<close> can
  run into: the overflow checks of \<^verbatim>\<open>Dec.Mul\<close> and \<^verbatim>\<open>Dec.RoundInt\<close>, and the
  denomination check of \<^verbatim>\<open>Coins.AmountOf\<close>.
\<close>

subsection \<open>sdk.Int and sdk.Dec\<close>

text \<open>
  \<^verbatim>\<open>sdk.Int\<close> wraps a \<^verbatim>\<open>big.Int\<close>; it is \<open>int\<close> here. \<^verbatim>\<open>sdk.Dec\<close> is a fixed-point
  decimal with 18 fractional digits, stored as the \<^verbatim>\<open>big.Int\<close> \<open>i\<close> that holds the value
  times \<open>10 ^ 18\<close>. A \<^verbatim>\<open>big.Int\<close> is unbounded; the SDK bounds its own types by a
  check of the bit length after an operation, and panics when the check fails. The
  checks that \<^verbatim>\<open>AnteHandle\<close> reaches are modelled below (\<open>Dec_Mul\<close>,
  \<open>Dec_RoundInt\<close>).
\<close>

datatype Dec = Dec (i: int)

definition Precision :: nat where
  "Precision = 18"

definition precisionReuse :: int where
  "precisionReuse = 10 ^ Precision"

definition fivePrecision :: int where
  "fivePrecision = precisionReuse div 2"

text \<open>
  \<^verbatim>\<open>chopPrecisionAndRound\<close>: remove the 18 rightmost digits and round the remainder with
  banker's rounding. A negative argument is negated, chopped and negated back; for the
  non-negative case \<^verbatim>\<open>QuoRem\<close> is \<open>div\<close> and \<open>mod\<close>.
  \<^verbatim>\<open>
  if rem.Sign() == 0 { return quo }
  switch rem.Cmp(fivePrecision) {
  case -1: return quo
  case 1:  return quo.Add(quo, oneInt)
  default: if quo.Bit(0) == 0 { return quo }
           return quo.Add(quo, oneInt)
  }
  \<close>
\<close>

definition chopNonNegative :: "int \<Rightarrow> int" where
  "chopNonNegative d =
     (let quo = d div precisionReuse; rem = d mod precisionReuse
      in if rem = 0 then quo
         else if rem < fivePrecision then quo
         else if rem > fivePrecision then quo + 1
         else if even quo then quo
         else quo + 1)"

definition chopPrecisionAndRound :: "int \<Rightarrow> int" where
  "chopPrecisionAndRound d =
     (if d < 0 then - chopNonNegative (- d) else chopNonNegative d)"

text \<open>
  \<^verbatim>\<open>big.Int.BitLen\<close>: the length of the absolute value in bits; the bit length of 0
  is 0.
\<close>

fun BitLen_nat :: "nat \<Rightarrow> nat" where
  "BitLen_nat n = (if n = 0 then 0 else Suc (BitLen_nat (n div 2)))"

declare BitLen_nat.simps [simp del]

definition BitLen :: "int \<Rightarrow> nat" where
  "BitLen x = BitLen_nat (nat \<bar>x\<bar>)"

definition Dec_IsZero :: "Dec \<Rightarrow> bool" where
  "Dec_IsZero d = (i d = 0)"

text \<open>
  Modelled from the spec: \<^verbatim>\<open>pkg.NewDecFromUint64\<close> (package \<^verbatim>\<open>pkg\<close> of this repository)
  is not among the sources. The spec multiplies the price by the gas limit itself
  (\<open>MinGasUnitPrice.amount \<times> GasLimit\<close>), so the helper is the decimal with the value of
  its unsigned 64-bit argument.
\<close>

definition NewDecFromUint64 :: "64 word \<Rightarrow> Dec" where
  "NewDecFromUint64 v = Dec (uint v * precisionReuse)"

subsection \<open>sdk.Coin, sdk.DecCoin and sdk.Coins\<close>

record Coin =
  Denom :: string
  Amount :: int

record DecCoin =
  DecCoin_Denom :: string
  DecCoin_Amount :: Dec

type_synonym Coins = "Coin list"

definition Coin_IsZero :: "Coin \<Rightarrow> bool" where
  "Coin_IsZero coin = (Amount coin = 0)"

definition Coin_IsPositive :: "Coin \<Rightarrow> bool" where
  "Coin_IsPositive coin = (0 < Amount coin)"

definition DecCoin_IsZero :: "DecCoin \<Rightarrow> bool" where
  "DecCoin_IsZero coin = Dec_IsZero (DecCoin_Amount coin)"

definition removeZeroCoins :: "Coins \<Rightarrow> Coins" where
  "removeZeroCoins coins = filter (\<lambda>c. \<not> Coin_IsZero c) coins"

text \<open>
  \<^verbatim>\<open>func (coins Coins) Add(coinsB ...Coin) Coins\<close> has a value receiver and RETURNS the
  sum as a new slice (\<^verbatim>\<open>safeAdd\<close>: a merge of two lists sorted by denomination, adding
  the amounts of equal denominations and leaving out zero coins). It does not change
  the receiver. Go compares strings bytewise, which is the lexicographic order of
  \<open>char list\<close>. In \<^verbatim>\<open>min_cons_fee.go\<close> the receiver of every \<^verbatim>\<open>Add\<close> is the empty
  set, so no two amounts are ever added there (the range check of \<^verbatim>\<open>Int.Add\<close> is
  not reached).
\<close>

fun safeAdd :: "Coins \<Rightarrow> Coins \<Rightarrow> Coins" where
  "safeAdd [] coinsB = removeZeroCoins coinsB"
| "safeAdd (a # as) [] = removeZeroCoins (a # as)"
| "safeAdd (a # as) (b # bs) =
     (if Denom a < Denom b then
        (if Coin_IsZero a then [] else [a]) @ safeAdd as (b # bs)
      else if Denom a = Denom b then
        (let res = \<lparr>Denom = Denom a, Amount = Amount a + Amount b\<rparr>
         in (if Coin_IsZero res then [] else [res]) @ safeAdd as bs)
      else
        (if Coin_IsZero b then [] else [b]) @ safeAdd (a # as) bs)"

definition Coins_Add :: "Coins \<Rightarrow> Coin list \<Rightarrow> Coins" where
  "Coins_Add coins coinsB = safeAdd coins coinsB"

text \<open>
  \<^verbatim>\<open>AmountOfNoDenomValidation\<close> searches a set sorted by denomination by bisection:
  \<^verbatim>\<open>
  switch len(coins) {
  case 0: return ZeroInt()
  case 1: coin := coins[0]
          if coin.Denom == denom { return coin.Amount }
          return ZeroInt()
  default:
      midIdx := len(coins) / 2
      coin := coins[midIdx]
      switch {
      case denom < coin.Denom:  return coins[:midIdx].AmountOf(denom)
      case denom == coin.Denom: return coin.Amount
      default:                  return coins[midIdx+1:].AmountOf(denom)
      }
  }
  \<close>
  The recursive calls go through \<^verbatim>\<open>AmountOf\<close>, which checks the denomination again;
  it is the denomination that the outer \<^verbatim>\<open>AmountOf\<close> (below) has already checked.
\<close>

function AmountOfNoDenomValidation :: "Coins \<Rightarrow> string \<Rightarrow> int" where
  "AmountOfNoDenomValidation coins denom =
     (if length coins = 0 then 0
      else if length coins = 1 then
        (let coin = coins ! 0 in if Denom coin = denom then Amount coin else 0)
      else
        (let midIdx = length coins div 2; coin = coins ! midIdx
         in if denom < Denom coin then AmountOfNoDenomValidation (take midIdx coins) denom
            else if denom = Denom coin then Amount coin
            else AmountOfNoDenomValidation (drop (midIdx + 1) coins) denom))"
  by pat_completeness auto
termination
  by (relation "measure (\<lambda>(coins, denom). length coins)") auto

declare AmountOfNoDenomValidation.simps [simp del]

subsection \<open>Errors, messages, transactions\<close>

text \<open>
  The errors \<^verbatim>\<open>AnteHandle\<close> can return. The three registered SDK errors carry the
  text they are wrapped with; \<open>ErrInsufficientFee\<close> carries the two values formatted
  into its text (the declared fee and the minimum expected). \<open>Bech32Error\<close> is
  whatever \<^verbatim>\<open>sdk.AccAddressFromBech32\<close> returns, and \<open>CoinsInvalid\<close> what
  \<^verbatim>\<open>Coins.Validate\<close> returns. \<open>Panic\<close> is not an error value of Go: it is a
  \<^verbatim>\<open>panic\<close> raised inside an SDK function, which leaves \<^verbatim>\<open>AnteHandle\<close> at once, with
  neither \<^verbatim>\<open>next\<close> called nor an error returned.
\<close>

datatype error =
    ErrTxDecode string
  | ErrInvalidRequest string
  | ErrUnauthorized string
  | ErrInsufficientFee Coins Coin
  | Bech32Error string
  | CoinsInvalid string
  | Panic string

text \<open>
  \<^verbatim>\<open>*codectypes.Any\<close> is an opaque encoded message: a type URL and bytes. An
  \<^verbatim>\<open>sdk.Msg\<close> is an interface; \<^verbatim>\<open>getContractFlatFees\<close> switches on two of its
  implementations and reads one field of each. Every other implementation is
  \<open>OtherMsg\<close>.
\<close>

datatype Any = Any (TypeUrl: string) (Value: "8 word list")

datatype Msg =
    MsgExecuteContract (Contract: string)
  | MsgExec (Msgs: "Any list")
  | OtherMsg

text \<open>
  An \<^verbatim>\<open>sdk.Tx\<close> has messages; the type assertion \<^verbatim>\<open>tx.(sdk.FeeTx)\<close> succeeds on a
  transaction that also has a fee and a gas limit (\<^verbatim>\<open>GetGas() uint64\<close>).
\<close>

datatype Tx =
    FeeTx (GetMsgs: "Msg list") (GetFee: Coins) (GetGas: "64 word")
  | PlainTx (GetMsgs: "Msg list")

type_synonym AccAddress = "8 word list"

text \<open>
  What the decorator reads from outside: the keeper
  (\<^verbatim>\<open>RewardsFeeReaderExpected\<close>, at the block state of \<^verbatim>\<open>ctx\<close>), the codec's
  \<^verbatim>\<open>UnpackAny\<close> (\<open>None\<close> when it returns an error), the two configurable SDK
  functions \<^verbatim>\<open>sdk.AccAddressFromBech32\<close> and \<^verbatim>\<open>sdk.ValidateDenom\<close>, and the two
  constants of the SDK that bound the bit length of an \<^verbatim>\<open>sdk.Int\<close> (\<^verbatim>\<open>maxBitLen\<close>) and
  of the integer inside an \<^verbatim>\<open>sdk.Dec\<close> (\<^verbatim>\<open>maxDecBitLen\<close>). The constants belong to the
  SDK version the module is built with, which the sources do not fix; the theorems hold
  for every value of them.
\<close>

record Env =
  GetMinConsensusFee :: "DecCoin \<times> bool"
  GetFlatFee :: "AccAddress \<Rightarrow> Coin \<times> bool"
  UnpackAny :: "Any \<Rightarrow> Msg option"
  AccAddressFromBech32 :: "string \<Rightarrow> error + AccAddress"
  ValidateDenom :: "string \<Rightarrow> bool"
  maxBitLen :: nat
  maxDecBitLen :: nat

subsection \<open>The SDK functions that can panic\<close>

text \<open>
  \<^verbatim>\<open>
  func (d Dec) Mul(d2 Dec) Dec {
      mul := new(big.Int).Mul(d.i, d2.i)
      chopped := chopPrecisionAndRound(mul)
      if chopped.BitLen() > maxDecBitLen { panic("Int overflow") }
      return Dec{chopped}
  }
  func (d Dec) RoundInt() Int {
      return NewIntFromBigInt(chopPrecisionAndRoundNonMutative(d.i))
  }
  func NewIntFromBigInt(i *big.Int) Int {
      if i.BitLen() > maxBitLen { panic("NewIntFromBigInt() out of bound") }
      return Int{i}
  }
  \<close>
\<close>

definition Dec_Mul :: "Env \<Rightarrow> Dec \<Rightarrow> Dec \<Rightarrow> error + Dec" where
  "Dec_Mul env d d2 =
     (let chopped = chopPrecisionAndRound (i d * i d2)
      in if BitLen chopped > maxDecBitLen env then Inl (Panic ''Int overflow'')
         else Inr (Dec chopped))"

definition NewIntFromBigInt :: "Env \<Rightarrow> int \<Rightarrow> error + int" where
  "NewIntFromBigInt env x =
     (if BitLen x > maxBitLen env then Inl (Panic ''NewIntFromBigInt() out of bound'')
      else Inr x)"

definition Dec_RoundInt :: "Env \<Rightarrow> Dec \<Rightarrow> error + int" where
  "Dec_RoundInt env d = NewIntFromBigInt env (chopPrecisionAndRound (i d))"

text \<open>
  \<^verbatim>\<open>
  func (coins Coins) AmountOf(denom string) Int {
      mustValidateDenom(denom)
      return coins.AmountOfNoDenomValidation(denom)
  }
  func mustValidateDenom(denom string) {
      if err := ValidateDenom(denom); err != nil { panic(err) }
  }
  \<close>
\<close>

definition AmountOf :: "Env \<Rightarrow> Coins \<Rightarrow> string \<Rightarrow> error + int" where
  "AmountOf env coins denom =
     (if \<not> ValidateDenom env denom then Inl (Panic ''invalid denom'')
      else Inr (AmountOfNoDenomValidation coins denom))"

text \<open>
  \<^verbatim>\<open>
  func (coins Coins) IsAnyGTE(coinsB Coins) bool {
      if len(coinsB) == 0 { return false }
      for _, coin := range coins {
          amt := coinsB.AmountOf(coin.Denom)
          if coin.Amount.GTE(amt) && !amt.IsZero() { return true }
      }
      return false
  }
  \<close>
  The loop stops at the first coin that is enough, so a denomination after it is
  never looked up.
\<close>

fun IsAnyGTE_loop :: "Env \<Rightarrow> Coins \<Rightarrow> Coins \<Rightarrow> error + bool" where
  "IsAnyGTE_loop env [] coinsB = Inr False"
| "IsAnyGTE_loop env (coin # coins) coinsB =
     (case AmountOf env coinsB (Denom coin) of
        Inl err \<Rightarrow> Inl err
      | Inr amt \<Rightarrow>
          if Amount coin \<ge> amt \<and> amt \<noteq> 0 then Inr True
          else IsAnyGTE_loop env coins coinsB)"

definition IsAnyGTE :: "Env \<Rightarrow> Coins \<Rightarrow> Coins \<Rightarrow> error + bool" where
  "IsAnyGTE env coins coinsB =
     (if length coinsB = 0 then Inr False else IsAnyGTE_loop env coins coinsB)"

subsection \<open>Coins.Validate\<close>

text \<open>
  \<^verbatim>\<open>Coins.Validate\<close>: an empty set is valid; otherwise every denomination is well
  formed, every amount positive, and the denominations strictly ascending (which also
  excludes duplicates). \<open>None\<close> is Go's \<^verbatim>\<open>nil\<close> error.
  \<^verbatim>\<open>
  for _, coin := range coins[1:] {
      if seenDenoms[coin.Denom]      { return "duplicate denomination" }
      if ValidateDenom(coin.Denom)   != nil { return err }
      if coin.Denom <= lowDenom      { return "denomination is not sorted" }
      if !coin.IsPositive()          { return "coin amount is not positive" }
      lowDenom = coin.Denom
      seenDenoms[coin.Denom] = true
  }
  \<close>
\<close>

fun Validate_loop :: "Env \<Rightarrow> string \<Rightarrow> string list \<Rightarrow> Coins \<Rightarrow> error option" where
  "Validate_loop env lowDenom seenDenoms [] = None"
| "Validate_loop env lowDenom seenDenoms (coin # coins) =
     (if Denom coin \<in> set seenDenoms then Some (CoinsInvalid ''duplicate denomination'')
      else if \<not> ValidateDenom env (Denom coin) then Some (CoinsInvalid ''invalid denom'')
      else if Denom coin \<le> lowDenom then Some (CoinsInvalid ''denomination is not sorted'')
      else if \<not> Coin_IsPositive coin then Some (CoinsInvalid ''coin amount is not positive'')
      else Validate_loop env (Denom coin) (Denom coin # seenDenoms) coins)"

definition Validate_single :: "Env \<Rightarrow> Coin \<Rightarrow> error option" where
  "Validate_single env coin =
     (if \<not> ValidateDenom env (Denom coin) then Some (CoinsInvalid ''invalid denom'')
      else if \<not> Coin_IsPositive coin then Some (CoinsInvalid ''coin amount is not positive'')
      else None)"

fun Validate :: "Env \<Rightarrow> Coins \<Rightarrow> error option" where
  "Validate env [] = None"
| "Validate env [coin] = Validate_single env coin"
| "Validate env (coin # coins) =
     (case Validate_single env coin of
        Some err \<Rightarrow> Some err
      | None \<Rightarrow> Validate_loop env (Denom coin) [Denom coin] coins)"

subsection \<open>getContractFlatFees\<close>

text \<open>
  Both functions of the file accumulate with the statement
  \<^verbatim>\<open>
  for _, fee := range fees {
      flatfee.Add(fee)
  }
  \<close>
  \<^verbatim>\<open>flatfee.Add(fee)\<close> is an expression statement: the slice that \<^verbatim>\<open>Add\<close> returns is
  dropped, and \<^verbatim>\<open>flatfee\<close>, which \<^verbatim>\<open>Add\<close> receives by value, stays what it was. The
  model binds the returned value to \<open>dropped\<close> and goes on with \<open>flatfee\<close>.
\<close>

definition Add_stmt :: "Coins \<Rightarrow> Coin \<Rightarrow> Coins" where
  "Add_stmt flatfee fee = (let dropped = Coins_Add flatfee [fee] in flatfee)"

fun Add_each :: "Coins \<Rightarrow> Coin list \<Rightarrow> Coins" where
  "Add_each flatfee [] = flatfee"
| "Add_each flatfee (fee # fees) = Add_each (Add_stmt flatfee fee) fees"

text \<open>
  The last line of \<^verbatim>\<open>getContractFlatFees\<close>, \<^verbatim>\<open>return flatfee, flatfee.Validate()\<close>;
  every caller looks at the error first.
\<close>

definition return_validated :: "Env \<Rightarrow> Coins \<Rightarrow> error + Coins" where
  "return_validated env flatfee =
     (case Validate env flatfee of Some err \<Rightarrow> Inl err | None \<Rightarrow> Inr flatfee)"

text \<open>
  The loop over \<^verbatim>\<open>msg.Msgs\<close> in the \<^verbatim>\<open>*authz.MsgExec\<close> case. \<open>rec\<close> is the recursive
  call of \<^verbatim>\<open>getContractFlatFees\<close>; \<open>None\<close> means that the call did not return.
\<close>

fun MsgExec_loop ::
  "(Msg \<Rightarrow> (error + Coins) option) \<Rightarrow> Env \<Rightarrow> Any list \<Rightarrow> Coins \<Rightarrow> (error + Coins) option"
where
  "MsgExec_loop rec env [] flatfee = Some (Inr flatfee)"
| "MsgExec_loop rec env (v # vs) flatfee =
     (case UnpackAny env v of
        None \<Rightarrow> Some (Inl (ErrUnauthorized ''error decoding authz messages''))
      | Some wrappedMsg \<Rightarrow>
          (case rec wrappedMsg of
             None \<Rightarrow> None
           | Some (Inl err) \<Rightarrow> Some (Inl err)
           | Some (Inr fees) \<Rightarrow> MsgExec_loop rec env vs (Add_each flatfee fees)))"

text \<open>
  \<^verbatim>\<open>
  func (mfd MinFeeDecorator) getContractFlatFees(ctx sdk.Context, m sdk.Msg) (sdk.Coins, error) {
      var flatfee sdk.Coins
      switch msg := m.(type) {
      case *wasmTypes.MsgExecuteContract:
          ca, err := sdk.AccAddressFromBech32(msg.Contract)
          if err != nil { return nil, err }
          fee, found := mfd.rewardsKeeper.GetFlatFee(ctx, ca)
          if found { flatfee.Add(fee) }
      case *authz.MsgExec:
          for _, v := range msg.Msgs {
              var wrappedMsg sdk.Msg
              err := mfd.codec.UnpackAny(v, &wrappedMsg)
              if err != nil { return nil, sdkErrors.Wrapf(sdkErrors.ErrUnauthorized, "error decoding authz messages") }
              fees, err := mfd.getContractFlatFees(ctx, wrappedMsg)
              if err != nil { return nil, err }
              for _, fee := range fees { flatfee.Add(fee) }
          }
      }
      return flatfee, flatfee.Validate()
  }
  \<close>
  \<^verbatim>\<open>getContractFlatFees\<close> calls itself on whatever the codec decodes, so nothing in
  the code bounds the recursion. The first argument is fuel: the number of nested
  calls allowed; with none left the result is \<open>None\<close>, the call that does not return.
  \<^verbatim>\<open>var flatfee sdk.Coins\<close> is the nil slice, \<open>[]\<close>.
\<close>

primrec getContractFlatFees :: "nat \<Rightarrow> Env \<Rightarrow> Msg \<Rightarrow> (error + Coins) option" where
  "getContractFlatFees 0 env m = None"
| "getContractFlatFees (Suc n) env m =
     (case m of
        MsgExecuteContract contract \<Rightarrow>
          (case AccAddressFromBech32 env contract of
             Inl err \<Rightarrow> Some (Inl err)
           | Inr ca \<Rightarrow>
               (let (fee, found) = GetFlatFee env ca;
                    flatfee = (if found then Add_stmt [] fee else [])
                in Some (return_validated env flatfee)))
      | MsgExec msgs \<Rightarrow>
          (case MsgExec_loop (getContractFlatFees n env) env msgs [] of
             None \<Rightarrow> None
           | Some (Inl err) \<Rightarrow> Some (Inl err)
           | Some (Inr flatfee) \<Rightarrow> Some (return_validated env flatfee))
      | OtherMsg \<Rightarrow> Some (return_validated env []))"

subsection \<open>AnteHandle\<close>

text \<open>
  \<open>Proceed\<close> is \<^verbatim>\<open>return next(ctx, tx, simulate)\<close>: the decorator hands the unchanged
  context and transaction to the rest of the chain.
\<close>

datatype Outcome = Proceed

text \<open>The loop over \<^verbatim>\<open>tx.GetMsgs()\<close>.\<close>

fun GetMsgs_loop ::
  "(Msg \<Rightarrow> (error + Coins) option) \<Rightarrow> Msg list \<Rightarrow> Coins \<Rightarrow> (error + Coins) option"
where
  "GetMsgs_loop gcff [] flatfee = Some (Inr flatfee)"
| "GetMsgs_loop gcff (m # ms) flatfee =
     (case gcff m of
        None \<Rightarrow> None
      | Some (Inl err) \<Rightarrow> Some (Inl err)
      | Some (Inr fees) \<Rightarrow> GetMsgs_loop gcff ms (Add_each flatfee fees))"

text \<open>
  The coin built at lines 63 to 66:
  \<^verbatim>\<open>
  txGasLimit := pkg.NewDecFromUint64(feeTx.GetGas())
  minFeeExpected := sdk.Coin{
      Denom:  gasUnitPrice.Denom,
      Amount: gasUnitPrice.Amount.Mul(txGasLimit).RoundInt(),
  }
  \<close>
\<close>

definition minFeeExpected :: "Env \<Rightarrow> DecCoin \<Rightarrow> 64 word \<Rightarrow> error + Coin" where
  "minFeeExpected env gasUnitPrice gas =
     (case Dec_Mul env (DecCoin_Amount gasUnitPrice) (NewDecFromUint64 gas) of
        Inl err \<Rightarrow> Inl err
      | Inr product \<Rightarrow>
          (case Dec_RoundInt env product of
             Inl err \<Rightarrow> Inl err
           | Inr amount \<Rightarrow> Inr \<lparr>Denom = DecCoin_Denom gasUnitPrice, Amount = amount\<rparr>))"

text \<open>
  \<^verbatim>\<open>AnteHandle\<close>, in the order of the source: the \<^verbatim>\<open>simulate\<close> guard, the type
  assertion, the minimum price, the gas limit, \<^verbatim>\<open>minFeeExpected\<close> (where \<^verbatim>\<open>Mul\<close> and
  \<^verbatim>\<open>RoundInt\<close> can panic, before any message is looked at), the loop over the messages
  (whose total, \<^verbatim>\<open>flatfee\<close>, is not read afterwards), the comparison (\<^verbatim>\<open>||\<close> does
  not evaluate \<^verbatim>\<open>IsAnyGTE\<close> when the amount is zero).
  \<^verbatim>\<open>
  if simulate { return next(ctx, tx, simulate) }
  feeTx, ok := tx.(sdk.FeeTx)
  if !ok { return ctx, sdkErrors.Wrap(sdkErrors.ErrTxDecode, "Tx must be a FeeTx") }
  gasUnitPrice, found := mfd.rewardsKeeper.GetMinConsensusFee(ctx)
  if !found || gasUnitPrice.IsZero() { return next(ctx, tx, simulate) }
  txFees := feeTx.GetFee()
  txGasLimit := pkg.NewDecFromUint64(feeTx.GetGas())
  if txGasLimit.IsZero() { return ctx, sdkErrors.Wrap(sdkErrors.ErrInvalidRequest, "tx gas limit is not set") }
  minFeeExpected := ...
  var flatfee sdk.Coins
  for _, m := range tx.GetMsgs() {
      fees, err := mfd.getContractFlatFees(ctx, m)
      if err != nil { return ctx, err }
      for _, fee := range fees { flatfee.Add(fee) }
  }
  if minFeeExpected.Amount.IsZero() || txFees.IsAnyGTE(sdk.Coins{minFeeExpected}) {
      return next(ctx, tx, simulate)
  }
  return ctx, sdkErrors.Wrapf(sdkErrors.ErrInsufficientFee, "tx fee %s is less than min fee: %s", txFees, minFeeExpected)
  \<close>
  The fuel is handed to each call of \<^verbatim>\<open>getContractFlatFees\<close>.
\<close>

definition AnteHandle :: "nat \<Rightarrow> Env \<Rightarrow> Tx \<Rightarrow> bool \<Rightarrow> (error + Outcome) option" where
  "AnteHandle fuel env tx simulate =
     (if simulate then Some (Inr Proceed)
      else case tx of
        PlainTx msgs \<Rightarrow> Some (Inl (ErrTxDecode ''Tx must be a FeeTx''))
      | FeeTx msgs txFees gas \<Rightarrow>
          (let (gasUnitPrice, found) = GetMinConsensusFee env
           in if \<not> found \<or> DecCoin_IsZero gasUnitPrice then Some (Inr Proceed)
              else if Dec_IsZero (NewDecFromUint64 gas)
                then Some (Inl (ErrInvalidRequest ''tx gas limit is not set''))
              else
                (case minFeeExpected env gasUnitPrice gas of
                   Inl err \<Rightarrow> Some (Inl err)
                 | Inr mfe \<Rightarrow>
                     (case GetMsgs_loop (getContractFlatFees fuel env) msgs [] of
                        None \<Rightarrow> None
                      | Some (Inl err) \<Rightarrow> Some (Inl err)
                      | Some (Inr flatfee) \<Rightarrow>
                          if Amount mfe = 0 then Some (Inr Proceed)
                          else (case IsAnyGTE env txFees [mfe] of
                                  Inl err \<Rightarrow> Some (Inl err)
                                | Inr enough \<Rightarrow>
                                    if enough then Some (Inr Proceed)
                                    else Some (Inl (ErrInsufficientFee txFees mfe)))))))"

subsection \<open>Definitions used to state the properties\<close>

text \<open>
  The rounding rule as the specification words it (claim C3): the product, a decimal
  with value \<open>n / 10 ^ 18\<close>, rounded to the nearest integer, a tie going away from
  zero. It is compared below with \<open>minFeeExpected\<close>, which is the code.
\<close>

definition spec_round_half_up :: "int \<Rightarrow> int" where
  "spec_round_half_up n =
     (if 0 \<le> n then (2 * n + precisionReuse) div (2 * precisionReuse)
      else - ((2 * (- n) + precisionReuse) div (2 * precisionReuse)))"

definition spec_MinFeeExpected :: "DecCoin \<Rightarrow> 64 word \<Rightarrow> Coin" where
  "spec_MinFeeExpected price gasLimit =
     \<lparr>Denom = DecCoin_Denom price,
      Amount = spec_round_half_up (i (DecCoin_Amount price) * uint gasLimit)\<rparr>"

text \<open>
  The product of the price and the gas limit is within the SDK's ranges: as a
  \<^verbatim>\<open>Dec\<close> it passes the check of \<^verbatim>\<open>Mul\<close>, and rounded it passes the check of
  \<^verbatim>\<open>NewIntFromBigInt\<close>.
\<close>

definition in_range :: "Env \<Rightarrow> DecCoin \<Rightarrow> 64 word \<Rightarrow> bool" where
  "in_range env price gasLimit =
     (BitLen (i (DecCoin_Amount price) * uint gasLimit) \<le> maxDecBitLen env
      \<and> BitLen (chopPrecisionAndRound (i (DecCoin_Amount price) * uint gasLimit)) \<le> maxBitLen env)"

text \<open>Flat-fee discovery on \<open>m\<close> returns, and returns no error.\<close>

definition discovery_ok :: "Env \<Rightarrow> Msg \<Rightarrow> bool" where
  "discovery_ok env m = (\<exists>n c. getContractFlatFees n env m = Some (Inr c))"

text \<open>
  The tree of messages below \<open>m\<close> is finite: a \<^verbatim>\<open>MsgExec\<close> is finite when every
  message the codec decodes from one of its entries is.
\<close>

inductive finite_tree :: "Env \<Rightarrow> Msg \<Rightarrow> bool" for env :: Env where
  finite_MsgExecuteContract: "finite_tree env (MsgExecuteContract contract)"
| finite_OtherMsg: "finite_tree env OtherMsg"
| finite_MsgExec:
    "(\<And>v wrappedMsg. v \<in> set msgs \<Longrightarrow> UnpackAny env v = Some wrappedMsg \<Longrightarrow> finite_tree env wrappedMsg)
     \<Longrightarrow> finite_tree env (MsgExec msgs)"

text \<open>
  The first failure met in the tree of \<open>m\<close>, in the order the loops run, is an entry
  of a \<^verbatim>\<open>MsgExec\<close> that the codec cannot decode: every entry before it (at every
  level on the way down) decodes and is discovered without error.
\<close>

inductive undecodable_first :: "Env \<Rightarrow> Msg \<Rightarrow> bool" for env :: Env where
  undecodable_here:
    "\<lbrakk>\<forall>p \<in> set before. \<exists>m'. UnpackAny env p = Some m' \<and> discovery_ok env m';
      UnpackAny env v = None\<rbrakk>
     \<Longrightarrow> undecodable_first env (MsgExec (before @ v # rest))"
| undecodable_below:
    "\<lbrakk>\<forall>p \<in> set before. \<exists>m'. UnpackAny env p = Some m' \<and> discovery_ok env m';
      UnpackAny env v = Some wrappedMsg; undecodable_first env wrappedMsg\<rbrakk>
     \<Longrightarrow> undecodable_first env (MsgExec (before @ v # rest))"

subsection \<open>A concrete keeper and codec\<close>

text \<open>
  A small instance of the collaborators, for evaluating the functions: a minimum
  price in \<open>uarch\<close>; flat fees of 10 and 20 \<open>uarch\<close> registered for two contracts; a
  codec whose type URL selects the message (\<open>authz\<close> entries nest as deep as their
  value is long); denominations of 3 to 128 characters; 256 bits for an Int and 315
  for a Dec.
\<close>

definition uarch_price :: "int \<Rightarrow> DecCoin" where
  "uarch_price n = \<lparr>DecCoin_Denom = ''uarch'', DecCoin_Amount = Dec n\<rparr>"

definition example_env :: Env where
  "example_env =
     \<lparr>GetMinConsensusFee = (uarch_price 2500000000000000, True),
      GetFlatFee = (\<lambda>ca. if ca = [1] then (\<lparr>Denom = ''uarch'', Amount = 10\<rparr>, True)
                         else if ca = [2] then (\<lparr>Denom = ''uarch'', Amount = 20\<rparr>, True)
                         else (\<lparr>Denom = [], Amount = 0\<rparr>, False)),
      UnpackAny = (\<lambda>a. if TypeUrl a = ''exec'' then
                            Some (MsgExecuteContract (if Value a = [1] then ''contract1'' else ''contract2''))
                         else if TypeUrl a = ''authz'' then
                            (case Value a of
                               [] \<Rightarrow> Some (MsgExecuteContract ''contract1'')
                             | b # bs \<Rightarrow> Some (MsgExec [Any ''authz'' bs]))
                         else if TypeUrl a = ''send'' then Some OtherMsg
                         else None),
      AccAddressFromBech32 = (\<lambda>s. if s = ''contract1'' then Inr [1]
                         else if s = ''contract2'' then Inr [2]
                         else Inl (Bech32Error ''decoding bech32 failed'')),
      ValidateDenom = (\<lambda>d. 3 \<le> length d \<and> length d \<le> 128),
      maxBitLen = 256,
      maxDecBitLen = 315\<rparr>"

text \<open>
  A price that is a legal \<^verbatim>\<open>Dec\<close> (261 bits) whose product with the largest gas limit,
  \<open>2 ^ 64 - 1\<close>, is not (more than 315 bits).
\<close>

definition big_price :: DecCoin where
  "big_price = uarch_price (2 ^ 260)"

text \<open>\<open>nested d\<close>: a contract execution wrapped in \<open>d + 1\<close> \<^verbatim>\<open>MsgExec\<close> messages.\<close>

definition nested :: "nat \<Rightarrow> Msg" where
  "nested d = MsgExec [Any ''authz'' (replicate d 0)]"

section \<open>Auxiliary facts\<close>

subsection \<open>The accumulator never changes\<close>

lemma Add_each_same: "Add_each flatfee fees = flatfee"
  by (induction fees) (simp_all add: Add_stmt_def)

lemma MsgExec_loop_Inr:
  "MsgExec_loop rec env vs flatfee = Some (Inr c) \<Longrightarrow> c = flatfee"
  by (induction vs arbitrary: flatfee)
     (auto simp: Add_each_same split: option.splits sum.splits)

lemma GetMsgs_loop_Inr:
  "GetMsgs_loop gcff ms flatfee = Some (Inr c) \<Longrightarrow> c = flatfee"
  by (induction ms arbitrary: flatfee)
     (auto simp: Add_each_same split: option.splits sum.splits)

lemma return_validated_Nil: "return_validated env [] = Inr []"
  by (simp add: return_validated_def)

lemma getContractFlatFees_Inr:
  "getContractFlatFees n env m = Some (Inr c) \<Longrightarrow> c = []"
  by (cases n; cases m)
     (auto simp: Add_stmt_def return_validated_Nil split: option.splits sum.splits prod.splits if_splits dest: MsgExec_loop_Inr)

subsection \<open>Bit lengths\<close>

lemma BitLen_nat_le_iff: "BitLen_nat n \<le> k \<longleftrightarrow> n < 2 ^ k"
proof (induction n arbitrary: k rule: BitLen_nat.induct)
  case (1 n)
  show ?case
  proof (cases "n = 0")
    case True
    then show ?thesis by (simp add: BitLen_nat.simps)
  next
    case False
    show ?thesis
    proof (cases k)
      case 0
      with False show ?thesis by (simp add: BitLen_nat.simps [of n])
    next
      case (Suc k')
      have "BitLen_nat n \<le> Suc k' \<longleftrightarrow> BitLen_nat (n div 2) \<le> k'"
        using False by (simp add: BitLen_nat.simps [of n])
      also have "\<dots> \<longleftrightarrow> n div 2 < 2 ^ k'"
        using False by (rule "1.IH")
      also have "\<dots> \<longleftrightarrow> n < 2 ^ Suc k'"
        by (simp add: div_less_iff_less_mult mult.commute)
      finally show ?thesis using Suc by simp
    qed
  qed
qed

lemma BitLen_le_iff: "BitLen x \<le> k \<longleftrightarrow> \<bar>x\<bar> < 2 ^ k"
proof -
  have "nat \<bar>x\<bar> < 2 ^ k \<longleftrightarrow> \<bar>x\<bar> < 2 ^ k"
    by (simp add: nat_less_iff)
  then show ?thesis by (simp add: BitLen_def BitLen_nat_le_iff)
qed

lemma BitLen_gt_iff: "BitLen x > k \<longleftrightarrow> 2 ^ k \<le> \<bar>x\<bar>"
  using BitLen_le_iff [of x k] by auto

subsection \<open>Rounding\<close>

lemma precisionReuse_eq: "precisionReuse = 2 * fivePrecision"
  by (simp add: precisionReuse_def fivePrecision_def Precision_def)

lemma fivePrecision_pos: "0 < fivePrecision"
  by (simp add: precisionReuse_def fivePrecision_def Precision_def)

lemma round_half_even_arith:
  fixes q r F :: int
  assumes "0 \<le> r" "r < 2 * F"
    and "c = (if r = 0 then q else if r < F then q else if r > F then q + 1
              else if even q then q else q + 1)"
  shows "2 * \<bar>c * (2 * F) - (q * (2 * F) + r)\<bar> < 2 * F
         \<or> (2 * \<bar>c * (2 * F) - (q * (2 * F) + r)\<bar> = 2 * F \<and> even c)"
proof -
  consider "r = 0" | "0 < r" "r < F" | "F < r" | "r = F" "r \<noteq> 0" "even q" | "r = F" "r \<noteq> 0" "odd q"
    using assms(1) by fastforce
  then show ?thesis
  proof cases
    case 1
    then show ?thesis using assms by simp
  next
    case 2
    then show ?thesis using assms by simp
  next
    case 3
    then have "c = q + 1" using assms by simp
    then have "c * (2 * F) - (q * (2 * F) + r) = 2 * F - r" by (simp add: algebra_simps)
    then show ?thesis using 3 assms by simp
  next
    case 4
    then show ?thesis using assms by simp
  next
    case 5
    then have "c = q + 1" using assms by simp
    then have "c * (2 * F) - (q * (2 * F) + r) = 2 * F - r" "even c"
      using 5 by (simp_all add: algebra_simps)
    then show ?thesis using 5 assms by simp
  qed
qed

lemma chopNonNegative_nearest:
  assumes "0 \<le> d"
  shows "2 * \<bar>chopNonNegative d * precisionReuse - d\<bar> < precisionReuse
         \<or> (2 * \<bar>chopNonNegative d * precisionReuse - d\<bar> = precisionReuse \<and> even (chopNonNegative d))"
proof -
  define q where "q = d div precisionReuse"
  define r where "r = d mod precisionReuse"
  define c where "c = chopNonNegative d"
  have P: "0 < precisionReuse" using fivePrecision_pos precisionReuse_eq by simp
  have d: "d = q * (2 * fivePrecision) + r"
    using precisionReuse_eq by (simp add: q_def r_def)
  have r: "0 \<le> r" "r < 2 * fivePrecision"
    using P precisionReuse_eq by (simp_all add: r_def)
  have c: "c = (if r = 0 then q else if r < fivePrecision then q else if r > fivePrecision then q + 1
       else if even q then q else q + 1)"
    by (simp add: c_def chopNonNegative_def Let_def q_def r_def)
  have "2 * \<bar>c * (2 * fivePrecision) - (q * (2 * fivePrecision) + r)\<bar> < 2 * fivePrecision
         \<or> (2 * \<bar>c * (2 * fivePrecision) - (q * (2 * fivePrecision) + r)\<bar> = 2 * fivePrecision \<and> even c)"
    by (rule round_half_even_arith [OF r c])
  moreover have "q * (2 * fivePrecision) + r = d" using d by simp
  ultimately show ?thesis
    by (simp only: precisionReuse_eq c_def)
qed

lemma chopPrecisionAndRound_nearest:
  "2 * \<bar>chopPrecisionAndRound d * precisionReuse - d\<bar> < precisionReuse
   \<or> (2 * \<bar>chopPrecisionAndRound d * precisionReuse - d\<bar> = precisionReuse \<and> even (chopPrecisionAndRound d))"
proof (cases "d < 0")
  case False
  then show ?thesis using chopNonNegative_nearest [of d] by (simp add: chopPrecisionAndRound_def)
next
  case True
  have eq: "\<bar>- chopNonNegative (- d) * precisionReuse - d\<bar> = \<bar>chopNonNegative (- d) * precisionReuse - (- d)\<bar>"
    by (simp add: algebra_simps)
  from True show ?thesis using chopNonNegative_nearest [of "- d"]
    unfolding chopPrecisionAndRound_def eq [symmetric] by simp
qed

lemma chopNonNegative_mult: "chopNonNegative (x * precisionReuse) = x"
  by (simp add: chopNonNegative_def precisionReuse_def Precision_def)

lemma chopPrecisionAndRound_mult: "chopPrecisionAndRound (x * precisionReuse) = x"
proof -
  have P: "0 < precisionReuse" by (simp add: precisionReuse_def)
  have "- (x * precisionReuse) = (- x) * precisionReuse" by simp
  then have "chopNonNegative (- (x * precisionReuse)) = - x"
    using chopNonNegative_mult [of "- x"] by simp
  then show ?thesis
    by (simp add: chopPrecisionAndRound_def chopNonNegative_mult)
qed

lemma Dec_Mul_NewDecFromUint64:
  "Dec_Mul env d (NewDecFromUint64 g) =
     (if BitLen (i d * uint g) > maxDecBitLen env then Inl (Panic ''Int overflow'')
      else Inr (Dec (i d * uint g)))"
  using chopPrecisionAndRound_mult [of "i d * uint g"]
  by (simp add: Dec_Mul_def NewDecFromUint64_def mult.assoc)

lemma minFeeExpected_eq:
  "minFeeExpected env p g =
     (if BitLen (i (DecCoin_Amount p) * uint g) > maxDecBitLen env
        then Inl (Panic ''Int overflow'')
      else if BitLen (chopPrecisionAndRound (i (DecCoin_Amount p) * uint g)) > maxBitLen env
        then Inl (Panic ''NewIntFromBigInt() out of bound'')
      else Inr \<lparr>Denom = DecCoin_Denom p,
                Amount = chopPrecisionAndRound (i (DecCoin_Amount p) * uint g)\<rparr>)"
  by (simp add: minFeeExpected_def Dec_Mul_NewDecFromUint64 Dec_RoundInt_def NewIntFromBigInt_def)

lemma minFeeExpected_in_range:
  "in_range env p g \<Longrightarrow>
     minFeeExpected env p g =
       Inr \<lparr>Denom = DecCoin_Denom p,
            Amount = chopPrecisionAndRound (i (DecCoin_Amount p) * uint g)\<rparr>"
  by (simp add: minFeeExpected_eq in_range_def)

lemma minFeeExpected_Inr_iff:
  "(\<exists>c. minFeeExpected env p g = Inr c) \<longleftrightarrow> in_range env p g"
  by (auto simp: minFeeExpected_eq in_range_def)

lemma minFeeExpected_out_of_range:
  "\<not> in_range env p g \<Longrightarrow> \<exists>s. minFeeExpected env p g = Inl (Panic s)"
  by (auto simp: minFeeExpected_eq in_range_def)

lemma minFeeExpected_GetMinConsensusFee:
  "minFeeExpected (env\<lparr>GetMinConsensusFee := x\<rparr>) p g = minFeeExpected env p g"
  by (simp add: minFeeExpected_eq)

lemma minFeeExpected_GetFlatFee:
  "minFeeExpected (env\<lparr>GetFlatFee := ff\<rparr>) p g = minFeeExpected env p g"
  by (simp add: minFeeExpected_eq)

lemma precisionReuse_num: "precisionReuse = 1000000000000000000"
  by (simp add: precisionReuse_def Precision_def)

lemma fivePrecision_num: "fivePrecision = 500000000000000000"
  by (simp add: fivePrecision_def precisionReuse_num)

subsection \<open>The comparison against a single coin\<close>

lemma AmountOfNoDenomValidation_single:
  "AmountOfNoDenomValidation [c] d = (if Denom c = d then Amount c else 0)"
  by (subst AmountOfNoDenomValidation.simps) simp

lemma IsAnyGTE_loop_single:
  assumes "\<forall>c \<in> set coins. ValidateDenom env (Denom c)"
  shows "IsAnyGTE_loop env coins [m] =
     Inr (Amount m \<noteq> 0 \<and> (\<exists>c \<in> set coins. Denom c = Denom m \<and> Amount m \<le> Amount c))"
  using assms
  by (induction coins) (auto simp: AmountOf_def AmountOfNoDenomValidation_single)

lemma IsAnyGTE_single:
  assumes "\<forall>c \<in> set coins. ValidateDenom env (Denom c)"
  shows "IsAnyGTE env coins [m] =
     Inr (Amount m \<noteq> 0 \<and> (\<exists>c \<in> set coins. Denom c = Denom m \<and> Amount m \<le> Amount c))"
  using assms by (simp add: IsAnyGTE_def IsAnyGTE_loop_single)

lemma IsAnyGTE_loop_GetFlatFee:
  "IsAnyGTE_loop (env\<lparr>GetFlatFee := ff\<rparr>) coins coinsB = IsAnyGTE_loop env coins coinsB"
  by (induction coins) (simp_all add: AmountOf_def)

lemma IsAnyGTE_GetFlatFee:
  "IsAnyGTE (env\<lparr>GetFlatFee := ff\<rparr>) coins coinsB = IsAnyGTE env coins coinsB"
  by (simp add: IsAnyGTE_def IsAnyGTE_loop_GetFlatFee)

lemma gas_IsZero: "Dec_IsZero (NewDecFromUint64 gas) = (gas = 0)"
  by (simp add: Dec_IsZero_def NewDecFromUint64_def precisionReuse_num uint_0_iff)

subsection \<open>More fuel never changes a result\<close>

lemma MsgExec_loop_mono:
  assumes "\<And>m r. f m = Some r \<Longrightarrow> g m = Some r"
  shows "MsgExec_loop f env vs flatfee = Some r \<Longrightarrow> MsgExec_loop g env vs flatfee = Some r"
proof (induction vs arbitrary: flatfee)
  case Nil
  then show ?case by simp
next
  case (Cons v vs)
  show ?case
  proof (cases "UnpackAny env v")
    case None
    with Cons.prems show ?thesis by simp
  next
    case (Some w)
    with Cons.prems obtain x where x: "f w = Some x"
      by (auto split: option.splits)
    then have "g w = Some x" by (rule assms)
    with x Some Cons show ?thesis
      by (cases x) auto
  qed
qed

lemma getContractFlatFees_Suc:
  "getContractFlatFees n env m = Some r \<Longrightarrow> getContractFlatFees (Suc n) env m = Some r"
proof (induction n arbitrary: m r)
  case 0
  then show ?case by simp
next
  case (Suc n)
  show ?case
  proof (cases m)
    case (MsgExec msgs)
    with Suc.prems obtain x where x: "MsgExec_loop (getContractFlatFees n env) env msgs [] = Some x"
      by (auto split: option.splits)
    have "MsgExec_loop (getContractFlatFees (Suc n) env) env msgs [] = Some x"
      by (rule MsgExec_loop_mono [OF _ x]) (rule Suc.IH)
    with x MsgExec Suc.prems show ?thesis by simp
  next
    case (MsgExecuteContract c)
    with Suc.prems show ?thesis by simp
  next
    case OtherMsg
    with Suc.prems show ?thesis by simp
  qed
qed

lemma getContractFlatFees_mono:
  assumes "getContractFlatFees n env m = Some r" and "n \<le> k"
  shows "getContractFlatFees k env m = Some r"
  using assms(2)
proof (induction rule: dec_induct)
  case base
  show ?case by (rule assms(1))
next
  case (step k)
  then show ?case by (intro getContractFlatFees_Suc)
qed

lemma GetMsgs_loop_mono:
  assumes "\<And>m r. f m = Some r \<Longrightarrow> g m = Some r"
  shows "GetMsgs_loop f ms flatfee = Some r \<Longrightarrow> GetMsgs_loop g ms flatfee = Some r"
proof (induction ms arbitrary: flatfee)
  case Nil
  then show ?case by simp
next
  case (Cons m ms)
  from Cons.prems obtain x where x: "f m = Some x"
    by (auto split: option.splits)
  then have "g m = Some x" by (rule assms)
  with x Cons show ?case
    by (cases x) auto
qed

subsection \<open>Discovery does not depend on the flat fees registered\<close>

lemma return_validated_GetFlatFee:
  "return_validated (env\<lparr>GetFlatFee := ff\<rparr>) [] = Inr []"
  by (simp add: return_validated_def)

lemma MsgExec_loop_GetFlatFee:
  assumes "\<And>m. f m = g m"
  shows "MsgExec_loop f (env\<lparr>GetFlatFee := ff1\<rparr>) vs flatfee
       = MsgExec_loop g (env\<lparr>GetFlatFee := ff2\<rparr>) vs flatfee"
  by (induction vs arbitrary: flatfee) (auto simp: assms split: option.splits sum.splits)

lemma getContractFlatFees_GetFlatFee:
  "getContractFlatFees n (env\<lparr>GetFlatFee := ff1\<rparr>) m
 = getContractFlatFees n (env\<lparr>GetFlatFee := ff2\<rparr>) m"
proof (induction n arbitrary: m)
  case 0
  show ?case by simp
next
  case (Suc n)
  have loop: "MsgExec_loop (getContractFlatFees n (env\<lparr>GetFlatFee := ff1\<rparr>)) (env\<lparr>GetFlatFee := ff1\<rparr>) vs []
            = MsgExec_loop (getContractFlatFees n (env\<lparr>GetFlatFee := ff2\<rparr>)) (env\<lparr>GetFlatFee := ff2\<rparr>) vs []" for vs
    by (rule MsgExec_loop_GetFlatFee) (rule Suc.IH)
  show ?case
  proof (cases m)
    case (MsgExecuteContract c)
    then show ?thesis
      by (simp add: Add_stmt_def return_validated_Nil split: sum.splits prod.splits)
  next
    case (MsgExec vs)
    then show ?thesis
      by (simp add: loop)
         (auto simp: return_validated_Nil dest!: MsgExec_loop_Inr split: option.splits sum.splits)
  next
    case OtherMsg
    then show ?thesis by (simp add: return_validated_Nil)
  qed
qed

subsection \<open>Discovery returns on finite trees\<close>

lemma MsgExec_loop_returns:
  assumes "\<And>v w. v \<in> set vs \<Longrightarrow> UnpackAny env v = Some w \<Longrightarrow> \<exists>r. getContractFlatFees n env w = Some r"
  shows "\<exists>r. MsgExec_loop (getContractFlatFees n env) env vs flatfee = Some r"
  using assms
proof (induction vs arbitrary: flatfee)
  case Nil
  show ?case by simp
next
  case (Cons v vs)
  show ?case
  proof (cases "UnpackAny env v")
    case None
    then show ?thesis by simp
  next
    case (Some w)
    then obtain r where r: "getContractFlatFees n env w = Some r"
      using Cons.prems [of v w] by auto
    have tl: "\<exists>r. MsgExec_loop (getContractFlatFees n env) env vs acc = Some r" for acc
      by (rule Cons.IH) (use Cons.prems in auto)
    show ?thesis
      using Some r tl by (cases r) auto
  qed
qed

lemma common_fuel:
  assumes "\<And>v w. v \<in> set vs \<Longrightarrow> UnpackAny env v = Some w
             \<Longrightarrow> \<exists>n. \<forall>k\<ge>n. \<exists>r. getContractFlatFees k env w = Some r"
  shows "\<exists>n. \<forall>k\<ge>n. \<forall>v \<in> set vs. \<forall>w. UnpackAny env v = Some w
             \<longrightarrow> (\<exists>r. getContractFlatFees k env w = Some r)"
  using assms
proof (induction vs)
  case Nil
  show ?case by simp
next
  case (Cons v vs)
  from Cons.IH obtain n1 where n1:
    "\<forall>k\<ge>n1. \<forall>v \<in> set vs. \<forall>w. UnpackAny env v = Some w \<longrightarrow> (\<exists>r. getContractFlatFees k env w = Some r)"
    using Cons.prems by (meson list.set_intros(2))
  have "\<exists>n2. \<forall>k\<ge>n2. \<forall>w. UnpackAny env v = Some w \<longrightarrow> (\<exists>r. getContractFlatFees k env w = Some r)"
  proof (cases "UnpackAny env v")
    case None
    then show ?thesis by simp
  next
    case (Some w)
    then show ?thesis using Cons.prems [of v w] by simp
  qed
  then obtain n2 where n2:
    "\<forall>k\<ge>n2. \<forall>w. UnpackAny env v = Some w \<longrightarrow> (\<exists>r. getContractFlatFees k env w = Some r)"
    by blast
  have "\<forall>k\<ge>max n1 n2. \<forall>v' \<in> set (v # vs). \<forall>w. UnpackAny env v' = Some w
             \<longrightarrow> (\<exists>r. getContractFlatFees k env w = Some r)"
    using n1 n2 by auto
  then show ?case by blast
qed

lemma finite_tree_returns:
  "finite_tree env m \<Longrightarrow> \<exists>n. \<forall>k\<ge>n. \<exists>r. getContractFlatFees k env m = Some r"
proof (induction rule: finite_tree.induct)
  case (finite_MsgExecuteContract contract)
  have "\<forall>k\<ge>Suc 0. \<exists>r. getContractFlatFees k env (MsgExecuteContract contract) = Some r"
    by (auto simp: le_Suc_eq Suc_le_eq gr0_conv_Suc split: sum.splits prod.splits)
  then show ?case by blast
next
  case finite_OtherMsg
  have "\<forall>k\<ge>Suc 0. \<exists>r. getContractFlatFees k env OtherMsg = Some r"
    by (auto simp: Suc_le_eq gr0_conv_Suc)
  then show ?case by blast
next
  case (finite_MsgExec msgs)
  then have "\<exists>n. \<forall>k\<ge>n. \<forall>v \<in> set msgs. \<forall>w. UnpackAny env v = Some w
             \<longrightarrow> (\<exists>r. getContractFlatFees k env w = Some r)"
    by (intro common_fuel) blast
  then obtain n where n: "\<forall>k\<ge>n. \<forall>v \<in> set msgs. \<forall>w. UnpackAny env v = Some w
             \<longrightarrow> (\<exists>r. getContractFlatFees k env w = Some r)"
    by blast
  have "\<exists>r. getContractFlatFees k env (MsgExec msgs) = Some r" if "k \<ge> Suc n" for k
  proof -
    from that obtain j where k: "k = Suc j" and j: "n \<le> j"
      by (cases k) auto
    have "\<exists>r. MsgExec_loop (getContractFlatFees j env) env msgs [] = Some r"
      by (rule MsgExec_loop_returns) (use n j in blast)
    then obtain r where "MsgExec_loop (getContractFlatFees j env) env msgs [] = Some r" ..
    then show ?thesis unfolding k by (cases r) auto
  qed
  then show ?case by blast
qed

subsection \<open>Entries that succeed are passed over\<close>

lemma MsgExec_loop_prefix:
  assumes "\<forall>p \<in> set before. \<exists>m'. UnpackAny env p = Some m' \<and> discovery_ok env m'"
  shows "\<exists>n. \<forall>k\<ge>n. \<forall>rest flatfee.
           MsgExec_loop (getContractFlatFees k env) env (before @ rest) flatfee
         = MsgExec_loop (getContractFlatFees k env) env rest flatfee"
  using assms
proof (induction before)
  case Nil
  show ?case by simp
next
  case (Cons p before)
  from Cons.prems obtain m' n1 c
    where p: "UnpackAny env p = Some m'" and c: "getContractFlatFees n1 env m' = Some (Inr c)"
    by (auto simp: discovery_ok_def)
  have "\<forall>p \<in> set before. \<exists>m'. UnpackAny env p = Some m' \<and> discovery_ok env m'"
    using Cons.prems by simp
  from Cons.IH [OF this] obtain n2 where n2: "\<And>k rest flatfee. k \<ge> n2 \<Longrightarrow>
           MsgExec_loop (getContractFlatFees k env) env (before @ rest) flatfee
         = MsgExec_loop (getContractFlatFees k env) env rest flatfee"
    by blast
  have "MsgExec_loop (getContractFlatFees k env) env ((p # before) @ rest) flatfee
         = MsgExec_loop (getContractFlatFees k env) env rest flatfee"
    if "k \<ge> max n1 n2" for k rest flatfee
  proof -
    from that have k: "n1 \<le> k" "n2 \<le> k" by simp_all
    have "getContractFlatFees k env m' = Some (Inr c)"
      by (rule getContractFlatFees_mono [OF c k(1)])
    then show ?thesis
      using p n2 [OF k(2)] by (simp add: Add_each_same)
  qed
  then show ?case by blast
qed

lemma GetMsgs_loop_prefix:
  assumes "\<forall>p \<in> set before. discovery_ok env p"
  shows "\<exists>n. \<forall>k\<ge>n. \<forall>rest flatfee.
           GetMsgs_loop (getContractFlatFees k env) (before @ rest) flatfee
         = GetMsgs_loop (getContractFlatFees k env) rest flatfee"
  using assms
proof (induction before)
  case Nil
  show ?case by simp
next
  case (Cons p before)
  from Cons.prems obtain n1 c
    where c: "getContractFlatFees n1 env p = Some (Inr c)"
    by (auto simp: discovery_ok_def)
  have "\<forall>p \<in> set before. discovery_ok env p"
    using Cons.prems by simp
  from Cons.IH [OF this] obtain n2 where n2: "\<And>k rest flatfee. k \<ge> n2 \<Longrightarrow>
           GetMsgs_loop (getContractFlatFees k env) (before @ rest) flatfee
         = GetMsgs_loop (getContractFlatFees k env) rest flatfee"
    by blast
  have "GetMsgs_loop (getContractFlatFees k env) ((p # before) @ rest) flatfee
         = GetMsgs_loop (getContractFlatFees k env) rest flatfee"
    if "k \<ge> max n1 n2" for k rest flatfee
  proof -
    from that have k: "n1 \<le> k" "n2 \<le> k" by simp_all
    have "getContractFlatFees k env p = Some (Inr c)"
      by (rule getContractFlatFees_mono [OF c k(1)])
    then show ?thesis
      using n2 [OF k(2)] by (simp add: Add_each_same)
  qed
  then show ?case by blast
qed

lemma undecodable_first_Unauthorized:
  "undecodable_first env m \<Longrightarrow>
     \<exists>n. \<forall>k\<ge>n. getContractFlatFees k env m = Some (Inl (ErrUnauthorized ''error decoding authz messages''))"
proof (induction rule: undecodable_first.induct)
  case (undecodable_here before v rest)
  from MsgExec_loop_prefix [OF undecodable_here(1)] obtain n where n: "\<And>k rest flatfee. k \<ge> n \<Longrightarrow>
           MsgExec_loop (getContractFlatFees k env) env (before @ rest) flatfee
         = MsgExec_loop (getContractFlatFees k env) env rest flatfee"
    by blast
  have "getContractFlatFees k env (MsgExec (before @ v # rest))
          = Some (Inl (ErrUnauthorized ''error decoding authz messages''))" if "k \<ge> Suc n" for k
  proof -
    from that obtain j where k: "k = Suc j" and j: "n \<le> j"
      by (cases k) auto
    show ?thesis unfolding k using undecodable_here(2) by (simp add: n [OF j])
  qed
  then show ?case by blast
next
  case (undecodable_below before v wrappedMsg rest)
  from MsgExec_loop_prefix [OF undecodable_below(1)] obtain n where n: "\<And>k rest flatfee. k \<ge> n \<Longrightarrow>
           MsgExec_loop (getContractFlatFees k env) env (before @ rest) flatfee
         = MsgExec_loop (getContractFlatFees k env) env rest flatfee"
    by blast
  from undecodable_below.IH obtain n' where n':
    "\<And>k. k \<ge> n' \<Longrightarrow> getContractFlatFees k env wrappedMsg = Some (Inl (ErrUnauthorized ''error decoding authz messages''))"
    by blast
  have "getContractFlatFees k env (MsgExec (before @ v # rest))
          = Some (Inl (ErrUnauthorized ''error decoding authz messages''))" if "k \<ge> Suc (max n n')" for k
  proof -
    from that obtain j where k: "k = Suc j" and j: "n \<le> j" "n' \<le> j"
      by (cases k) auto
    show ?thesis unfolding k using undecodable_below(2) by (simp add: n [OF j(1)] n' [OF j(2)])
  qed
  then show ?case by blast
qed

subsection \<open>The concrete instance\<close>

lemma example_env_simps:
  "GetMinConsensusFee example_env = (uarch_price 2500000000000000, True)"
  "GetFlatFee example_env [1] = (\<lparr>Denom = ''uarch'', Amount = 10\<rparr>, True)"
  "GetFlatFee example_env [2] = (\<lparr>Denom = ''uarch'', Amount = 20\<rparr>, True)"
  "UnpackAny example_env (Any ''exec'' [1]) = Some (MsgExecuteContract ''contract1'')"
  "UnpackAny example_env (Any ''exec'' [2]) = Some (MsgExecuteContract ''contract2'')"
  "UnpackAny example_env (Any ''bogus'' bs) = None"
  "UnpackAny example_env (Any ''send'' bs) = Some OtherMsg"
  "UnpackAny example_env (Any ''authz'' []) = Some (MsgExecuteContract ''contract1'')"
  "UnpackAny example_env (Any ''authz'' (b # bs)) = Some (MsgExec [Any ''authz'' bs])"
  "AccAddressFromBech32 example_env ''contract1'' = Inr [1]"
  "AccAddressFromBech32 example_env ''contract2'' = Inr [2]"
  "AccAddressFromBech32 example_env ''nonsense'' = Inl (Bech32Error ''decoding bech32 failed'')"
  "ValidateDenom example_env ''uarch''"
  "\<not> ValidateDenom example_env ''u''"
  "maxBitLen example_env = 256"
  "maxDecBitLen example_env = 315"
  by (simp_all add: example_env_def)

lemma uarch_price_nonzero: "\<not> DecCoin_IsZero (uarch_price 2500000000000000)"
  by (simp add: DecCoin_IsZero_def Dec_IsZero_def uarch_price_def)

lemma nested_deep:
  "getContractFlatFees (d + 2) example_env (nested d) = Some (Inr [])
   \<and> getContractFlatFees (d + 1) example_env (nested d) = None"
proof (induction d)
  case 0
  show ?case
    by (simp add: nested_def example_env_simps Add_stmt_def return_validated_def)
next
  case (Suc d)
  then show ?case
    by (simp add: nested_def example_env_simps Add_stmt_def return_validated_def)
qed

lemma finite_tree_nested: "finite_tree example_env (nested d)"
proof (induction d)
  case 0
  show ?case unfolding nested_def
    by (rule finite_MsgExec) (auto simp: example_env_simps intro: finite_tree.intros)
next
  case (Suc d)
  show ?case unfolding nested_def
  proof (rule finite_MsgExec)
    fix v w
    assume "v \<in> set [Any ''authz'' (replicate (Suc d) 0)]" "UnpackAny example_env v = Some w"
    then have "w = nested d"
      by (simp add: example_env_simps nested_def)
    then show "finite_tree example_env w" using Suc by simp
  qed
qed

lemma example_discovery:
  "GetMsgs_loop (getContractFlatFees (Suc 0) (example_env\<lparr>GetFlatFee := ff\<rparr>)) [MsgExecuteContract ''contract1''] []
     = Some (Inr [])"
  by (simp add: example_env_def Add_stmt_def return_validated_def split: prod.splits)

lemma example_minFeeExpected:
  "minFeeExpected example_env (uarch_price 2500000000000000) 200000
     = Inr \<lparr>Denom = ''uarch'', Amount = 500\<rparr>"
  by (simp add: minFeeExpected_eq uarch_price_def example_env_simps BitLen_gt_iff
      chopPrecisionAndRound_def chopNonNegative_def precisionReuse_num fivePrecision_num)

lemma example_overflow:
  "minFeeExpected example_env big_price 18446744073709551615
     = Inl (Panic ''Int overflow'')"
  by (simp add: minFeeExpected_eq big_price_def uarch_price_def example_env_simps BitLen_gt_iff)

lemma big_price_nonzero: "\<not> DecCoin_IsZero big_price"
  by (simp add: DecCoin_IsZero_def Dec_IsZero_def big_price_def uarch_price_def)

lemma example_discovery_ok: "discovery_ok example_env (MsgExecuteContract ''contract1'')"
  unfolding discovery_ok_def
  by (rule exI [of _ "Suc 0"]) (simp add: example_env_simps Add_stmt_def return_validated_def)

lemma example_undecodable:
  "undecodable_first example_env (MsgExec [Any ''exec'' [1], Any ''bogus'' [], Any ''send'' []])"
proof -
  have "undecodable_first example_env (MsgExec ([Any ''exec'' [1]] @ Any ''bogus'' [] # [Any ''send'' []]))"
    by (rule undecodable_here) (simp_all add: example_env_simps example_discovery_ok)
  then show ?thesis by simp
qed


section \<open>The claims\<close>

subsection \<open>C1: what flat-fee discovery returns\<close>

text \<open>
  Claim C1 says that discovery on a contract execution whose contract has a
  registered flat fee, and on a \<^verbatim>\<open>MsgExec\<close> wrapping two of them, returns the sum of the
  registered fees and no error. The code returns no error and NO coins: with flat fees
  of 10 and 20 \<open>uarch\<close> registered for the two contracts, discovery returns the empty
  set for the single execution and for the wrapper, where the sum \<^verbatim>\<open>Add\<close> computes
  (and the code drops) is 30 \<open>uarch\<close>. The theorem evaluates the code there; by
  \<open>getContractFlatFees_Inr\<close> above, discovery returns no coin on any input.
\<close>

theorem getContractFlatFees_drops_flat_fees:
  "GetFlatFee example_env [1] = (\<lparr>Denom = ''uarch'', Amount = 10\<rparr>, True)
   \<and> GetFlatFee example_env [2] = (\<lparr>Denom = ''uarch'', Amount = 20\<rparr>, True)
   \<and> getContractFlatFees (Suc 0) example_env (MsgExecuteContract ''contract1'') = Some (Inr [])
   \<and> getContractFlatFees (Suc (Suc 0)) example_env (MsgExec [Any ''exec'' [1], Any ''exec'' [2]])
       = Some (Inr [])
   \<and> Coins_Add (Coins_Add [] [\<lparr>Denom = ''uarch'', Amount = 10\<rparr>]) [\<lparr>Denom = ''uarch'', Amount = 20\<rparr>]
       = [\<lparr>Denom = ''uarch'', Amount = 30\<rparr>]"
  by (simp add: example_env_simps Add_stmt_def return_validated_def Coins_Add_def
      removeZeroCoins_def Coin_IsZero_def)

subsection \<open>C2: the flat fees do not enter the decision\<close>

text \<open>
  Claim C2: for a fee transaction checked with \<open>simulate = False\<close> under an active,
  nonzero minimum price, on which flat-fee discovery succeeds, the outcome is a
  function of the declared fee, the gas limit and the minimum price alone. Two
  registry states that differ only in their flat fees (\<open>ff1\<close> and \<open>ff2\<close>, any two
  lookup functions) give the same outcome, and that outcome compares the fee with
  \<open>minFeeExpected\<close>, to which nothing has been added. The outcome is written out in
  full, with the panics of \<^verbatim>\<open>Mul\<close>, \<^verbatim>\<open>RoundInt\<close> and \<^verbatim>\<open>AmountOf\<close>: they too depend on
  the price, the gas limit and the fee only.
\<close>

theorem AnteHandle_ignores_flat_fees:
  assumes "GetMinConsensusFee env = (gasUnitPrice, True)"
    and "\<not> DecCoin_IsZero gasUnitPrice"
    and "GetMsgs_loop (getContractFlatFees fuel (env\<lparr>GetFlatFee := ff1\<rparr>)) msgs [] = Some (Inr flatfee)"
  shows "AnteHandle fuel (env\<lparr>GetFlatFee := ff1\<rparr>) (FeeTx msgs txFees gas) False
       = AnteHandle fuel (env\<lparr>GetFlatFee := ff2\<rparr>) (FeeTx msgs txFees gas) False
       \<and> AnteHandle fuel (env\<lparr>GetFlatFee := ff1\<rparr>) (FeeTx msgs txFees gas) False
       = Some (if gas = 0 then Inl (ErrInvalidRequest ''tx gas limit is not set'')
               else case minFeeExpected env gasUnitPrice gas of
                      Inl err \<Rightarrow> Inl err
                    | Inr mfe \<Rightarrow>
                        if Amount mfe = 0 then Inr Proceed
                        else (case IsAnyGTE env txFees [mfe] of
                                Inl err \<Rightarrow> Inl err
                              | Inr enough \<Rightarrow>
                                  if enough then Inr Proceed
                                  else Inl (ErrInsufficientFee txFees mfe)))"
proof -
  have "getContractFlatFees fuel (env\<lparr>GetFlatFee := ff2\<rparr>) = getContractFlatFees fuel (env\<lparr>GetFlatFee := ff1\<rparr>)"
    by (rule ext) (rule getContractFlatFees_GetFlatFee)
  then show ?thesis
    using assms
    by (simp add: AnteHandle_def gas_IsZero minFeeExpected_GetFlatFee IsAnyGTE_GetFlatFee
        split: sum.splits)
qed

theorem AnteHandle_ignores_flat_fees_witness:
  "GetMinConsensusFee example_env = (uarch_price 2500000000000000, True)
   \<and> \<not> DecCoin_IsZero (uarch_price 2500000000000000)
   \<and> GetMsgs_loop (getContractFlatFees (Suc 0) (example_env\<lparr>GetFlatFee := \<lambda>ca. (\<lparr>Denom = ''uarch'', Amount = 10\<rparr>, True)\<rparr>))
        [MsgExecuteContract ''contract1''] [] = Some (Inr [])
   \<and> AnteHandle (Suc 0) (example_env\<lparr>GetFlatFee := \<lambda>ca. (\<lparr>Denom = ''uarch'', Amount = 10\<rparr>, True)\<rparr>)
        (FeeTx [MsgExecuteContract ''contract1''] [\<lparr>Denom = ''uarch'', Amount = 500\<rparr>] 200000) False
       = Some (Inr Proceed)
   \<and> AnteHandle (Suc 0) (example_env\<lparr>GetFlatFee := \<lambda>ca. (\<lparr>Denom = ''uarch'', Amount = 1000000\<rparr>, True)\<rparr>)
        (FeeTx [MsgExecuteContract ''contract1''] [\<lparr>Denom = ''uarch'', Amount = 500\<rparr>] 200000) False
       = Some (Inr Proceed)"
proof -
  have p: "GetMinConsensusFee example_env = (uarch_price 2500000000000000, True)"
    by (rule example_env_simps(1))
  have d: "GetMsgs_loop (getContractFlatFees (Suc 0) (example_env\<lparr>GetFlatFee := \<lambda>ca. (\<lparr>Denom = ''uarch'', Amount = 10\<rparr>, True)\<rparr>))
        [MsgExecuteContract ''contract1''] [] = Some (Inr [])"
    by (rule example_discovery)
  have ge: "IsAnyGTE example_env [\<lparr>Denom = ''uarch'', Amount = 500\<rparr>] [\<lparr>Denom = ''uarch'', Amount = 500\<rparr>] = Inr True"
    by (simp add: IsAnyGTE_single example_env_simps)
  note t = AnteHandle_ignores_flat_fees [OF p uarch_price_nonzero d,
      of "[\<lparr>Denom = ''uarch'', Amount = 500\<rparr>]" 200000 "\<lambda>ca. (\<lparr>Denom = ''uarch'', Amount = 1000000\<rparr>, True)"]
  have A: "AnteHandle (Suc 0) (example_env\<lparr>GetFlatFee := \<lambda>ca. (\<lparr>Denom = ''uarch'', Amount = 10\<rparr>, True)\<rparr>)
        (FeeTx [MsgExecuteContract ''contract1''] [\<lparr>Denom = ''uarch'', Amount = 500\<rparr>] 200000) False
       = Some (Inr Proceed)"
    using t [THEN conjunct2] ge by (simp add: example_minFeeExpected)
  have B: "AnteHandle (Suc 0) (example_env\<lparr>GetFlatFee := \<lambda>ca. (\<lparr>Denom = ''uarch'', Amount = 1000000\<rparr>, True)\<rparr>)
        (FeeTx [MsgExecuteContract ''contract1''] [\<lparr>Denom = ''uarch'', Amount = 500\<rparr>] 200000) False
       = Some (Inr Proceed)"
    using t [THEN conjunct1] A by simp
  show ?thesis using p uarch_price_nonzero d A B by blast
qed

subsection \<open>C3: the rounding of the minimum fee\<close>

text \<open>
  Claim C3 says that for every price and gas limit \<open>minFeeExpected\<close> is the price
  times the gas limit rounded to the nearest integer with ties away from zero. It
  fails in two ways. A product beyond the range of a \<^verbatim>\<open>Dec\<close> gives no coin at all:
  \<^verbatim>\<open>Mul\<close> panics. And at a tie \<^verbatim>\<open>RoundInt\<close> goes to the even neighbour: a price of 0.5
  and a gas limit of 1 give 0, where the rule of the claim gives 1.
\<close>

theorem minFeeExpected_differs_from_spec:
  "minFeeExpected example_env big_price 18446744073709551615
     = Inl (Panic ''Int overflow'')
   \<and> minFeeExpected example_env (uarch_price 500000000000000000) 1
     = Inr \<lparr>Denom = ''uarch'', Amount = 0\<rparr>
   \<and> spec_MinFeeExpected (uarch_price 500000000000000000) 1
     = \<lparr>Denom = ''uarch'', Amount = 1\<rparr>"
proof -
  have "minFeeExpected example_env (uarch_price 500000000000000000) 1
          = Inr \<lparr>Denom = ''uarch'', Amount = 0\<rparr>"
    by (simp add: minFeeExpected_eq uarch_price_def example_env_simps BitLen_gt_iff
        chopPrecisionAndRound_def chopNonNegative_def precisionReuse_num fivePrecision_num)
  moreover have "spec_MinFeeExpected (uarch_price 500000000000000000) 1
          = \<lparr>Denom = ''uarch'', Amount = 1\<rparr>"
    by (simp add: spec_MinFeeExpected_def spec_round_half_up_def uarch_price_def precisionReuse_num)
  ultimately show ?thesis
    using example_overflow by blast
qed

text \<open>
  Claim C3 as amended: for every minimum price \<open>p\<close> and gas limit \<open>g\<close> whose product
  is within the SDK's ranges (\<open>in_range\<close>), \<open>minFeeExpected\<close> is a coin in the
  denomination of the price whose amount is the product (the decimal
  \<open>i p * g / 10 ^ 18\<close>) rounded to a nearest integer: it is at most half a unit away
  from the product. Which neighbour an exact tie goes to is not part of the statement.
  Outside the ranges the computation panics. Price 0.0025 with gas 200000 gives 500,
  and price 0.000015 with gas 333333 gives 5.
\<close>

theorem minFeeExpected_nearest:
  "(in_range env p g \<longrightarrow>
      (\<exists>c. minFeeExpected env p g = Inr c
           \<and> Denom c = DecCoin_Denom p
           \<and> 2 * \<bar>Amount c * 10 ^ 18 - i (DecCoin_Amount p) * uint g\<bar> \<le> 10 ^ 18))
   \<and> (\<not> in_range env p g \<longrightarrow> (\<exists>s. minFeeExpected env p g = Inl (Panic s)))
   \<and> minFeeExpected example_env (uarch_price 2500000000000000) 200000
       = Inr \<lparr>Denom = ''uarch'', Amount = 500\<rparr>
   \<and> minFeeExpected example_env (uarch_price 15000000000000) 333333
       = Inr \<lparr>Denom = ''uarch'', Amount = 5\<rparr>"
proof -
  have P: "precisionReuse = 10 ^ 18" by (simp add: precisionReuse_def Precision_def)
  have near: "2 * \<bar>chopPrecisionAndRound (i (DecCoin_Amount p) * uint g) * 10 ^ 18
                  - i (DecCoin_Amount p) * uint g\<bar> \<le> 10 ^ 18"
    using chopPrecisionAndRound_nearest [of "i (DecCoin_Amount p) * uint g"]
    unfolding P by linarith
  have a: "in_range env p g \<longrightarrow>
      (\<exists>c. minFeeExpected env p g = Inr c
           \<and> Denom c = DecCoin_Denom p
           \<and> 2 * \<bar>Amount c * 10 ^ 18 - i (DecCoin_Amount p) * uint g\<bar> \<le> 10 ^ 18)"
    using near by (simp add: minFeeExpected_in_range)
  have b: "\<not> in_range env p g \<longrightarrow> (\<exists>s. minFeeExpected env p g = Inl (Panic s))"
    using minFeeExpected_out_of_range by blast
  have c: "minFeeExpected example_env (uarch_price 2500000000000000) 200000
       = Inr \<lparr>Denom = ''uarch'', Amount = 500\<rparr>"
    by (rule example_minFeeExpected)
  have d: "minFeeExpected example_env (uarch_price 15000000000000) 333333
       = Inr \<lparr>Denom = ''uarch'', Amount = 5\<rparr>"
    by (simp add: minFeeExpected_eq uarch_price_def example_env_simps BitLen_gt_iff
      chopPrecisionAndRound_def chopNonNegative_def precisionReuse_num fivePrecision_num)
  from a b c d show ?thesis by blast
qed

theorem minFeeExpected_nearest_witness:
  "in_range example_env (uarch_price 15000000000000) 333333
   \<and> minFeeExpected example_env (uarch_price 15000000000000) 333333
       = Inr \<lparr>Denom = ''uarch'', Amount = 5\<rparr>
   \<and> 2 * \<bar>5 * 10 ^ 18 - 15000000000000 * 333333\<bar> \<le> (10 ^ 18 :: int)"
proof -
  have r: "in_range example_env (uarch_price 15000000000000) 333333"
    by (simp add: in_range_def uarch_price_def example_env_simps BitLen_le_iff
      chopPrecisionAndRound_def chopNonNegative_def precisionReuse_num fivePrecision_num)
  have "minFeeExpected example_env (uarch_price 15000000000000) 333333
       = Inr \<lparr>Denom = ''uarch'', Amount = 5\<rparr>"
    using minFeeExpected_nearest [of example_env "uarch_price 15000000000000" 333333] by blast
  then show ?thesis using r by simp
qed

subsection \<open>C4: the decision\<close>

text \<open>
  Claim C4 says that with \<open>simulate = False\<close>, a fee transaction, an active nonzero
  minimum price, a nonzero gas limit and flat-fee discovery that succeeds, the outcome
  is \<open>Proceed\<close> or \<open>ErrInsufficientFee\<close>. Two guards of the SDK stand in the way. A
  declared fee with an ill-formed denomination makes \<^verbatim>\<open>AmountOf\<close> panic (a fee of 1000
  \<open>u\<close>, and also 5 \<open>u\<close> followed by 1000 \<open>uarch\<close>, which the claim would let proceed);
  a product of price and gas limit out of range makes \<^verbatim>\<open>Mul\<close> panic.
\<close>

theorem AnteHandle_fee_decision_panics:
  "AnteHandle (Suc 0) example_env
      (FeeTx [MsgExecuteContract ''contract1''] [\<lparr>Denom = ''u'', Amount = 1000\<rparr>] 200000) False
     = Some (Inl (Panic ''invalid denom''))
   \<and> AnteHandle (Suc 0) example_env
      (FeeTx [MsgExecuteContract ''contract1'']
         [\<lparr>Denom = ''u'', Amount = 5\<rparr>, \<lparr>Denom = ''uarch'', Amount = 1000\<rparr>] 200000) False
     = Some (Inl (Panic ''invalid denom''))
   \<and> AnteHandle (Suc 0) (example_env\<lparr>GetMinConsensusFee := (big_price, True)\<rparr>)
      (FeeTx [MsgExecuteContract ''contract1''] [\<lparr>Denom = ''uarch'', Amount = 500\<rparr>]
         18446744073709551615) False
     = Some (Inl (Panic ''Int overflow''))"
proof -
  have o: "minFeeExpected (example_env\<lparr>GetMinConsensusFee := (big_price, True)\<rparr>)
             big_price 18446744073709551615 = Inl (Panic ''Int overflow'')"
    by (simp add: minFeeExpected_GetMinConsensusFee example_overflow)
  have d: "GetMsgs_loop (getContractFlatFees (Suc 0) example_env) [MsgExecuteContract ''contract1''] []
             = Some (Inr [])"
    using example_discovery [of "GetFlatFee example_env"] by simp
  show ?thesis
    using d
    by (simp add: AnteHandle_def example_env_simps uarch_price_nonzero big_price_nonzero
        gas_IsZero example_minFeeExpected o IsAnyGTE_def AmountOf_def)
qed

text \<open>
  Claim C4 as amended: with \<open>simulate = False\<close>, a fee transaction, an active nonzero
  minimum price, a nonzero gas limit, flat-fee discovery that succeeds, a product of
  price and gas limit within the SDK's ranges (\<open>minFeeExpected\<close> returns a coin, \<open>mfe\<close>)
  and a declared fee whose denominations are all well formed, the outcome is
  \<open>Proceed\<close> exactly when the amount of \<open>mfe\<close> is zero or the declared fee has an
  entry in the denomination of \<open>mfe\<close> whose amount is at least that of \<open>mfe\<close>; in
  every other case it is \<open>ErrInsufficientFee\<close>, carrying the declared fee and the
  computed minimum.
\<close>

theorem AnteHandle_fee_decision:
  assumes "GetMinConsensusFee env = (gasUnitPrice, True)"
    and "\<not> DecCoin_IsZero gasUnitPrice"
    and "gas \<noteq> 0"
    and "GetMsgs_loop (getContractFlatFees fuel env) msgs [] = Some (Inr flatfee)"
    and "minFeeExpected env gasUnitPrice gas = Inr mfe"
    and "\<forall>c \<in> set txFees. ValidateDenom env (Denom c)"
  shows "(AnteHandle fuel env (FeeTx msgs txFees gas) False = Some (Inr Proceed)
          \<longleftrightarrow> Amount mfe = 0 \<or> (\<exists>c \<in> set txFees. Denom c = Denom mfe \<and> Amount mfe \<le> Amount c))
       \<and> (AnteHandle fuel env (FeeTx msgs txFees gas) False \<noteq> Some (Inr Proceed)
          \<longrightarrow> AnteHandle fuel env (FeeTx msgs txFees gas) False
              = Some (Inl (ErrInsufficientFee txFees mfe)))"
  using assms(1-5) by (auto simp: AnteHandle_def gas_IsZero IsAnyGTE_single [OF assms(6)])

theorem AnteHandle_fee_decision_witness:
  "GetMinConsensusFee example_env = (uarch_price 2500000000000000, True)
   \<and> \<not> DecCoin_IsZero (uarch_price 2500000000000000)
   \<and> (200000 :: 64 word) \<noteq> 0
   \<and> GetMsgs_loop (getContractFlatFees (Suc 0) example_env) [MsgExecuteContract ''contract1''] [] = Some (Inr [])
   \<and> minFeeExpected example_env (uarch_price 2500000000000000) 200000
       = Inr \<lparr>Denom = ''uarch'', Amount = 500\<rparr>
   \<and> ValidateDenom example_env ''uarch''
   \<and> AnteHandle (Suc 0) example_env
        (FeeTx [MsgExecuteContract ''contract1''] [\<lparr>Denom = ''uarch'', Amount = 500\<rparr>] 200000) False
       = Some (Inr Proceed)
   \<and> AnteHandle (Suc 0) example_env
        (FeeTx [MsgExecuteContract ''contract1''] [\<lparr>Denom = ''uarch'', Amount = 499\<rparr>] 200000) False
       = Some (Inl (ErrInsufficientFee [\<lparr>Denom = ''uarch'', Amount = 499\<rparr>] \<lparr>Denom = ''uarch'', Amount = 500\<rparr>))"
proof -
  have g: "(200000 :: 64 word) \<noteq> 0" by simp
  have d: "GetMsgs_loop (getContractFlatFees (Suc 0) example_env) [MsgExecuteContract ''contract1''] [] = Some (Inr [])"
    using example_discovery [of "GetFlatFee example_env"] by simp
  have v500: "\<forall>c \<in> set [\<lparr>Denom = ''uarch'', Amount = 500\<rparr>]. ValidateDenom example_env (Denom c)"
    by (simp add: example_env_simps)
  have v499: "\<forall>c \<in> set [\<lparr>Denom = ''uarch'', Amount = 499\<rparr>]. ValidateDenom example_env (Denom c)"
    by (simp add: example_env_simps)
  note t = AnteHandle_fee_decision [OF example_env_simps(1) uarch_price_nonzero g d example_minFeeExpected]
  have "AnteHandle (Suc 0) example_env
        (FeeTx [MsgExecuteContract ''contract1''] [\<lparr>Denom = ''uarch'', Amount = 500\<rparr>] 200000) False
       = Some (Inr Proceed)"
    using t [OF v500, THEN conjunct1] by simp
  moreover have "AnteHandle (Suc 0) example_env
        (FeeTx [MsgExecuteContract ''contract1''] [\<lparr>Denom = ''uarch'', Amount = 499\<rparr>] 200000) False
       \<noteq> Some (Inr Proceed)"
    using t [OF v499, THEN conjunct1] by simp
  then have "AnteHandle (Suc 0) example_env
        (FeeTx [MsgExecuteContract ''contract1''] [\<lparr>Denom = ''uarch'', Amount = 499\<rparr>] 200000) False
       = Some (Inl (ErrInsufficientFee [\<lparr>Denom = ''uarch'', Amount = 499\<rparr>] \<lparr>Denom = ''uarch'', Amount = 500\<rparr>))"
    using t [OF v499, THEN conjunct2] by blast
  ultimately show ?thesis
    using example_env_simps(1) example_env_simps(13) uarch_price_nonzero g d example_minFeeExpected by blast
qed

subsection \<open>C5: simulation\<close>

text \<open>
  Claim C5: with \<open>simulate = True\<close> the outcome is \<open>Proceed\<close>, for every transaction
  (fee-bearing or not, whatever its fee, gas limit and messages) and every registry
  state.
\<close>

theorem AnteHandle_simulate: "AnteHandle fuel env tx True = Some (Inr Proceed)"
  by (simp add: AnteHandle_def)

theorem AnteHandle_simulate_witness:
  "AnteHandle 0 example_env (FeeTx [MsgExec [Any ''bogus'' []]] [] 0) True = Some (Inr Proceed)"
  by (rule AnteHandle_simulate)

subsection \<open>C6: a transaction without fee fields\<close>

text \<open>
  Claim C6 says that a transaction that is not a \<^verbatim>\<open>FeeTx\<close> fails with the decode error
  for both values of \<open>simulate\<close>. The code tests \<open>simulate\<close> first and returns before
  the type assertion: with \<open>simulate = True\<close> such a transaction proceeds.
\<close>

theorem AnteHandle_PlainTx_simulate_proceeds:
  "AnteHandle 0 example_env (PlainTx [OtherMsg]) True = Some (Inr Proceed)
   \<and> AnteHandle 0 example_env (PlainTx [OtherMsg]) True \<noteq> Some (Inl (ErrTxDecode ''Tx must be a FeeTx''))"
  by (simp add: AnteHandle_def)

text \<open>
  Claim C6 as amended: a transaction that is not a \<^verbatim>\<open>FeeTx\<close> fails with \<open>ErrTxDecode\<close>
  (``Tx must be a FeeTx'') when \<open>simulate = False\<close>, and proceeds when
  \<open>simulate = True\<close>.
\<close>

theorem AnteHandle_PlainTx:
  "AnteHandle fuel env (PlainTx msgs) False = Some (Inl (ErrTxDecode ''Tx must be a FeeTx''))
   \<and> AnteHandle fuel env (PlainTx msgs) True = Some (Inr Proceed)"
  by (simp add: AnteHandle_def)

theorem AnteHandle_PlainTx_witness:
  "AnteHandle 0 example_env (PlainTx [OtherMsg]) False = Some (Inl (ErrTxDecode ''Tx must be a FeeTx''))
   \<and> AnteHandle 0 example_env (PlainTx [OtherMsg]) True = Some (Inr Proceed)"
  by (rule AnteHandle_PlainTx)

subsection \<open>C7: no minimum price\<close>

text \<open>
  Claim C7: with \<open>simulate = False\<close> and a fee transaction, when the keeper reports
  the minimum price as not found, or found with amount zero, the outcome is \<open>Proceed\<close>
  for every gas limit (zero too) and all messages. Discovery is not run: the theorem
  holds with no fuel at all, and for messages on which discovery would fail.
\<close>

theorem AnteHandle_no_min_price:
  assumes "GetMinConsensusFee env = (gasUnitPrice, found)"
    and "\<not> found \<or> DecCoin_IsZero gasUnitPrice"
  shows "AnteHandle fuel env (FeeTx msgs txFees gas) False = Some (Inr Proceed)"
  using assms by (auto simp: AnteHandle_def)

theorem AnteHandle_no_min_price_witness:
  "GetMinConsensusFee (example_env\<lparr>GetMinConsensusFee := (uarch_price 0, True)\<rparr>) = (uarch_price 0, True)
   \<and> DecCoin_IsZero (uarch_price 0)
   \<and> AnteHandle 0 (example_env\<lparr>GetMinConsensusFee := (uarch_price 0, True)\<rparr>)
        (FeeTx [MsgExec [Any ''bogus'' []], MsgExecuteContract ''nonsense''] [] 0) False = Some (Inr Proceed)
   \<and> GetMinConsensusFee (example_env\<lparr>GetMinConsensusFee := (uarch_price 2500000000000000, False)\<rparr>)
        = (uarch_price 2500000000000000, False)
   \<and> AnteHandle 0 (example_env\<lparr>GetMinConsensusFee := (uarch_price 2500000000000000, False)\<rparr>)
        (FeeTx [MsgExec [Any ''bogus'' []], MsgExecuteContract ''nonsense''] [] 0) False = Some (Inr Proceed)"
proof -
  have z: "DecCoin_IsZero (uarch_price 0)"
    by (simp add: DecCoin_IsZero_def Dec_IsZero_def uarch_price_def)
  have a: "GetMinConsensusFee (example_env\<lparr>GetMinConsensusFee := (uarch_price 0, True)\<rparr>) = (uarch_price 0, True)"
    by simp
  have b: "GetMinConsensusFee (example_env\<lparr>GetMinConsensusFee := (uarch_price 2500000000000000, False)\<rparr>)
        = (uarch_price 2500000000000000, False)"
    by simp
  show ?thesis
    using z a b AnteHandle_no_min_price [OF a, of 0 "[MsgExec [Any ''bogus'' []], MsgExecuteContract ''nonsense'']" "[]" 0]
      AnteHandle_no_min_price [OF b, of 0 "[MsgExec [Any ''bogus'' []], MsgExecuteContract ''nonsense'']" "[]" 0]
    by blast
qed

subsection \<open>C8: a gas limit of zero\<close>

text \<open>
  Claim C8: with \<open>simulate = False\<close>, a fee transaction and a minimum price that is
  found and not zero, a gas limit of zero gives the error \<open>ErrInvalidRequest\<close>
  (``tx gas limit is not set''), not \<open>Proceed\<close>.
\<close>

theorem AnteHandle_zero_gas:
  assumes "GetMinConsensusFee env = (gasUnitPrice, True)"
    and "\<not> DecCoin_IsZero gasUnitPrice"
  shows "AnteHandle fuel env (FeeTx msgs txFees 0) False =
           Some (Inl (ErrInvalidRequest ''tx gas limit is not set''))"
  using assms by (simp add: AnteHandle_def gas_IsZero)

theorem AnteHandle_zero_gas_witness:
  "GetMinConsensusFee example_env = (uarch_price 2500000000000000, True)
   \<and> \<not> DecCoin_IsZero (uarch_price 2500000000000000)
   \<and> AnteHandle 0 example_env (FeeTx [OtherMsg] [\<lparr>Denom = ''uarch'', Amount = 500\<rparr>] 0) False
       = Some (Inl (ErrInvalidRequest ''tx gas limit is not set''))"
  using AnteHandle_zero_gas [OF example_env_simps(1) uarch_price_nonzero] example_env_simps(1) uarch_price_nonzero
  by blast

subsection \<open>C9: an undecodable entry of a MsgExec\<close>

text \<open>
  Claim C9 says that every check (with \<open>simulate = False\<close>, a fee transaction, an
  active nonzero minimum price and a nonzero gas limit) whose first failing message
  holds an entry the codec cannot decode fails with \<open>ErrUnauthorized\<close>. The minimum
  fee is computed before the messages are looked at: when the product of price and gas
  limit is out of range, \<^verbatim>\<open>Mul\<close> panics and the undecodable entry is never reached.
\<close>

theorem AnteHandle_undecodable_overflow:
  "AnteHandle (Suc (Suc 0)) (example_env\<lparr>GetMinConsensusFee := (big_price, True)\<rparr>)
      (FeeTx [MsgExec [Any ''bogus'' []]] [\<lparr>Denom = ''uarch'', Amount = 500\<rparr>]
         18446744073709551615) False
     = Some (Inl (Panic ''Int overflow''))
   \<and> AnteHandle (Suc (Suc 0)) (example_env\<lparr>GetMinConsensusFee := (big_price, True)\<rparr>)
      (FeeTx [MsgExec [Any ''bogus'' []]] [\<lparr>Denom = ''uarch'', Amount = 500\<rparr>]
         18446744073709551615) False
     \<noteq> Some (Inl (ErrUnauthorized ''error decoding authz messages''))"
proof -
  have o: "minFeeExpected (example_env\<lparr>GetMinConsensusFee := (big_price, True)\<rparr>)
             big_price 18446744073709551615 = Inl (Panic ''Int overflow'')"
    by (simp add: minFeeExpected_GetMinConsensusFee example_overflow)
  show ?thesis
    by (simp add: AnteHandle_def big_price_nonzero gas_IsZero o)
qed

text \<open>
  Claim C9 as amended: with \<open>simulate = False\<close>, a fee transaction, an active nonzero
  minimum price, a nonzero gas limit and a product of price and gas limit within the
  SDK's ranges (\<open>minFeeExpected\<close> returns a coin), let the messages be
  \<open>before @ m # rest\<close>, where discovery succeeds on every message of \<open>before\<close> and
  the first failure in the tree of \<open>m\<close> is an entry the codec cannot decode. Then the
  check returns \<open>ErrUnauthorized\<close> (with every fuel from some bound on): neither
  \<open>Proceed\<close> nor \<open>ErrInsufficientFee\<close>, whatever the fee and whatever follows in
  \<open>rest\<close>.
\<close>

theorem AnteHandle_undecodable:
  assumes "GetMinConsensusFee env = (gasUnitPrice, True)"
    and "\<not> DecCoin_IsZero gasUnitPrice"
    and "gas \<noteq> 0"
    and "\<forall>p \<in> set before. discovery_ok env p"
    and "undecodable_first env m"
    and "minFeeExpected env gasUnitPrice gas = Inr mfe"
  shows "\<exists>n. \<forall>k\<ge>n. AnteHandle k env (FeeTx (before @ m # rest) txFees gas) False
           = Some (Inl (ErrUnauthorized ''error decoding authz messages''))"
proof -
  from GetMsgs_loop_prefix [OF assms(4)] obtain n1 where n1: "\<And>k rest flatfee. k \<ge> n1 \<Longrightarrow>
           GetMsgs_loop (getContractFlatFees k env) (before @ rest) flatfee
         = GetMsgs_loop (getContractFlatFees k env) rest flatfee"
    by blast
  from undecodable_first_Unauthorized [OF assms(5)] obtain n2 where n2:
    "\<And>k. k \<ge> n2 \<Longrightarrow> getContractFlatFees k env m = Some (Inl (ErrUnauthorized ''error decoding authz messages''))"
    by blast
  have "AnteHandle k env (FeeTx (before @ m # rest) txFees gas) False
           = Some (Inl (ErrUnauthorized ''error decoding authz messages''))" if "k \<ge> max n1 n2" for k
  proof -
    from that have k: "n1 \<le> k" "n2 \<le> k" by simp_all
    show ?thesis
      using assms(1-3,6) by (simp add: AnteHandle_def gas_IsZero n1 [OF k(1)] n2 [OF k(2)])
  qed
  then show ?thesis by blast
qed

theorem AnteHandle_undecodable_witness:
  "GetMinConsensusFee example_env = (uarch_price 2500000000000000, True)
   \<and> \<not> DecCoin_IsZero (uarch_price 2500000000000000)
   \<and> (200000 :: 64 word) \<noteq> 0
   \<and> discovery_ok example_env (MsgExecuteContract ''contract1'')
   \<and> undecodable_first example_env (MsgExec [Any ''exec'' [1], Any ''bogus'' [], Any ''send'' []])
   \<and> minFeeExpected example_env (uarch_price 2500000000000000) 200000
       = Inr \<lparr>Denom = ''uarch'', Amount = 500\<rparr>
   \<and> (\<exists>k. AnteHandle k example_env
          (FeeTx [MsgExecuteContract ''contract1'',
                  MsgExec [Any ''exec'' [1], Any ''bogus'' [], Any ''send'' []],
                  MsgExecuteContract ''nonsense'']
             [\<lparr>Denom = ''uarch'', Amount = 500\<rparr>] 200000) False
        = Some (Inl (ErrUnauthorized ''error decoding authz messages'')))"
proof -
  have g: "(200000 :: 64 word) \<noteq> 0" by simp
  have b: "\<forall>p \<in> set [MsgExecuteContract ''contract1'']. discovery_ok example_env p"
    by (simp add: example_discovery_ok)
  from AnteHandle_undecodable [OF example_env_simps(1) uarch_price_nonzero g b example_undecodable
      example_minFeeExpected,
      of "[MsgExecuteContract ''nonsense'']" "[\<lparr>Denom = ''uarch'', Amount = 500\<rparr>]"]
  obtain n where "\<forall>k\<ge>n. AnteHandle k example_env
          (FeeTx ([MsgExecuteContract ''contract1''] @
                  MsgExec [Any ''exec'' [1], Any ''bogus'' [], Any ''send'' []] #
                  [MsgExecuteContract ''nonsense''])
             [\<lparr>Denom = ''uarch'', Amount = 500\<rparr>] 200000) False
        = Some (Inl (ErrUnauthorized ''error decoding authz messages''))"
    by blast
  then have "AnteHandle n example_env
          (FeeTx [MsgExecuteContract ''contract1'',
                  MsgExec [Any ''exec'' [1], Any ''bogus'' [], Any ''send'' []],
                  MsgExecuteContract ''nonsense'']
             [\<lparr>Denom = ''uarch'', Amount = 500\<rparr>] 200000) False
        = Some (Inl (ErrUnauthorized ''error decoding authz messages''))"
    by simp
  then show ?thesis
    using example_env_simps(1) uarch_price_nonzero g example_discovery_ok example_undecodable
      example_minFeeExpected
    by blast
qed

subsection \<open>C10: discovery terminates on finite trees\<close>

text \<open>
  Claim C10: on a message whose tree of decoded sub-messages is finite,
  \<^verbatim>\<open>getContractFlatFees\<close> returns (a set of coins or an error) whenever it is given
  enough fuel, that is, it terminates. And no depth is refused: for every \<open>d\<close>,
  discovery on \<open>nested d\<close> goes \<open>d + 2\<close> calls deep (one call less does not return)
  and returns without error.
\<close>

theorem getContractFlatFees_terminates:
  "(finite_tree env m \<longrightarrow> (\<exists>n. \<forall>k\<ge>n. \<exists>r. getContractFlatFees k env m = Some r))
   \<and> (\<forall>d. getContractFlatFees (d + 2) example_env (nested d) = Some (Inr [])
          \<and> getContractFlatFees (d + 1) example_env (nested d) = None)"
  using finite_tree_returns [of env m] nested_deep by blast

theorem getContractFlatFees_terminates_witness:
  "finite_tree example_env (nested 3)
   \<and> (\<exists>k r. getContractFlatFees k example_env (nested 3) = Some r)"
proof -
  have f: "finite_tree example_env (nested 3)" by (rule finite_tree_nested)
  with getContractFlatFees_terminates [of example_env "nested 3"] obtain n
    where "\<forall>k\<ge>n. \<exists>r. getContractFlatFees k example_env (nested 3) = Some r"
    by blast
  then have "\<exists>r. getContractFlatFees n example_env (nested 3) = Some r" by simp
  with f show ?thesis by blast
qed

end
